theory Spec2Isabelle
  imports Main
begin

section \<open>Text, and the patterns of Python's \<open>re\<close> that the plugin code uses\<close>

text \<open>
  A Python 2 \<open>str\<close> is a sequence of bytes, hence a \<^typ>\<open>string\<close>. Standard output is
  the text written so far; \<open>print x\<close> writes \<open>x\<close> and a line feed.
\<close>

definition nl :: char where
  "nl = CHR 0x0A"

definition print :: "string \<Rightarrow> string" where
  "print s = s @ [nl]"

text \<open>\<open>"\n".join(xs)\<close>\<close>

fun join_nl :: "string list \<Rightarrow> string" where
  "join_nl [] = []"
| "join_nl [x] = x"
| "join_nl (x # y # ys) = x @ nl # join_nl (y # ys)"

text \<open>
  The pattern texts of the source, as syntax trees. \<open>WordCh\<close> is \<open>\w\<close> (without the
  LOCALE and UNICODE flags: ASCII letters, digits and the underscore), \<open>OneOf\<close> a bracket
  expression, \<open>Eol\<close> the anchor \<open>$\<close>, which holds at the end of the text and just before
  a line feed that ends the text.
\<close>

datatype atom = Lit char | WordCh | OneOf "atom list"

datatype pattern =
    Zero
  | Eps
  | Atom atom
  | Seq pattern pattern
  | Alt pattern pattern
  | Star pattern
  | Eol

definition Plus :: "pattern \<Rightarrow> pattern" where
  "Plus p = Seq p (Star p)"

definition is_upper :: "char \<Rightarrow> bool" where
  "is_upper c = (65 \<le> (of_char c :: nat) \<and> (of_char c :: nat) \<le> 90)"

definition is_lower :: "char \<Rightarrow> bool" where
  "is_lower c = (97 \<le> (of_char c :: nat) \<and> (of_char c :: nat) \<le> 122)"

definition is_digit :: "char \<Rightarrow> bool" where
  "is_digit c = (48 \<le> (of_char c :: nat) \<and> (of_char c :: nat) \<le> 57)"

definition to_lower :: "char \<Rightarrow> char" where
  "to_lower c = (if is_upper c then char_of ((of_char c :: nat) + 32) else c)"

text \<open>Whether one character matches an atom; \<open>ic\<close> is the flag \<open>re.IGNORECASE\<close>.\<close>

fun atom_ok :: "bool \<Rightarrow> atom \<Rightarrow> char \<Rightarrow> bool" where
  "atom_ok ic (Lit x) c = (if ic then to_lower x = to_lower c else x = c)"
| "atom_ok ic WordCh c = (is_upper c \<or> is_lower c \<or> is_digit c \<or> c = CHR ''_'')"
| "atom_ok ic (OneOf as) c = list_ex (\<lambda>a. atom_ok ic a c) as"

text \<open>
  Matching by derivatives. \<open>nullable s p\<close>: the pattern matches the empty text at a place
  where \<open>s\<close> is what remains of the subject; \<open>deriv ic c s p\<close>: what is left of the pattern
  once it has read \<open>c\<close>, with \<open>s\<close> remaining after \<open>c\<close>.
\<close>

fun nullable :: "string \<Rightarrow> pattern \<Rightarrow> bool" where
  "nullable s Zero = False"
| "nullable s Eps = True"
| "nullable s (Atom a) = False"
| "nullable s (Seq p q) = (nullable s p \<and> nullable s q)"
| "nullable s (Alt p q) = (nullable s p \<or> nullable s q)"
| "nullable s (Star p) = True"
| "nullable s Eol = (s = [] \<or> s = [nl])"

fun deriv :: "bool \<Rightarrow> char \<Rightarrow> string \<Rightarrow> pattern \<Rightarrow> pattern" where
  "deriv ic c s Zero = Zero"
| "deriv ic c s Eps = Zero"
| "deriv ic c s (Atom a) = (if atom_ok ic a c then Eps else Zero)"
| "deriv ic c s (Seq p q) =
     (if nullable (c # s) p then Alt (Seq (deriv ic c s p) q) (deriv ic c s q)
      else Seq (deriv ic c s p) q)"
| "deriv ic c s (Alt p q) = Alt (deriv ic c s p) (deriv ic c s q)"
| "deriv ic c s (Star p) = Seq (deriv ic c s p) (Star p)"
| "deriv ic c s Eol = Zero"

text \<open>
  \<open>re.match(p, s)\<close>, read as a truth value: some prefix of \<open>s\<close> matches \<open>p\<close>
  (a match object is true, \<open>None\<close> is false).
\<close>

fun re_match :: "bool \<Rightarrow> pattern \<Rightarrow> string \<Rightarrow> bool" where
  "re_match ic p [] = nullable [] p"
| "re_match ic p (c # s) = (nullable (c # s) p \<or> re_match ic (deriv ic c s p) s)"

section \<open>\<open>MuninAttrFilter\<close>\<close>

text \<open>
  The constructor is handed the pattern text and compiles it; here it is handed the
  compiled pattern. \<open>None\<close> stands for every false \<open>attr_regex\<close> (\<open>None\<close> and the empty
  text), for which the source sets \<open>_regex\<close> to \<open>None\<close>.
\<close>

record MuninAttrFilter =
  f_attrs :: "string \<rightharpoonup> bool"
  f_default :: bool
  f_regex :: "pattern option"

text \<open>\<open>not self._regex or self._regex.match(attr)\<close>\<close>

definition attr_valid :: "pattern option \<Rightarrow> string \<Rightarrow> bool" where
  "attr_valid rx attr = (case rx of None \<Rightarrow> True | Some p \<Rightarrow> re_match False p attr)"

text \<open>One pass of \<open>for attr in xs: if ...: self._attrs[attr] = b\<close>.\<close>

definition mark_attrs :: "pattern option \<Rightarrow> bool \<Rightarrow> string list \<Rightarrow> (string \<rightharpoonup> bool) \<Rightarrow> (string \<rightharpoonup> bool)" where
  "mark_attrs rx b xs d = fold (\<lambda>attr d. if attr_valid rx attr then d(attr \<mapsto> b) else d) xs d"

definition MuninAttrFilter_init :: "string list \<Rightarrow> string list \<Rightarrow> pattern option \<Rightarrow> MuninAttrFilter" where
  "MuninAttrFilter_init list_include list_exclude attr_regex =
     (let f0 = \<lparr>f_attrs = Map.empty, f_default = True, f_regex = attr_regex\<rparr>;
          f1 = (if list_include \<noteq> []
                then f0\<lparr>f_default := False,
                        f_attrs := mark_attrs attr_regex True list_include (f_attrs f0)\<rparr>
                else f0);
          f2 = (if list_exclude \<noteq> []
                then f1\<lparr>f_attrs := mark_attrs attr_regex False list_exclude (f_attrs f1)\<rparr>
                else f1)
      in f2)"

text \<open>\<open>check\<close>: \<open>self._attrs.get(attr, self._default)\<close>\<close>

definition check :: "MuninAttrFilter \<Rightarrow> string \<Rightarrow> bool" where
  "check f attr = (case f_attrs f attr of None \<Rightarrow> f_default f | Some b \<Rightarrow> b)"

section \<open>Python values\<close>

text \<open>
  The values that reach a graph: \<open>None\<close>, Booleans, integers (\<open>int\<close> and \<open>long\<close>,
  unbounded), byte strings and floats. A float is a binary fraction, \<open>PyFloat m e\<close>
  for \<open>m * 2 ^ e\<close> (with \<open>PyFloat 0 e\<close> the positive zero), or one of the four other
  values of the type: the negative zero, the two infinities and not-a-number.
\<close>

datatype pyfloat = PyFloat int int | NegZero | Inf | NegInf | NaN

datatype pyval = PNone | PBool bool | PInt int | PStr string | PFloat pyfloat

text \<open>The decimal digits of a number that is not negative.\<close>

definition digit :: "int \<Rightarrow> char" where
  "digit d = char_of (48 + d)"

function digits :: "int \<Rightarrow> string" where
  "digits n = (if n < 10 then [digit n] else digits (n div 10) @ [digit (n mod 10)])"
  by pat_completeness auto
termination
  by (relation "measure nat") auto

declare digits.simps [simp del]

definition str_int :: "int \<Rightarrow> string" where
  "str_int i = (if i < 0 then CHR ''-'' # digits (- i) else digits i)"

text \<open>The quotient \<open>p / q\<close> (\<open>0 \<le> p\<close>, \<open>0 < q\<close>) rounded to an integer, a tie going to
  the even neighbour.\<close>

definition round_half_even :: "int \<Rightarrow> int \<Rightarrow> int" where
  "round_half_even p q =
     (let d = p div q; r = p mod q
      in if 2 * r < q then d else if q < 2 * r then d + 1 else if even d then d else d + 1)"

text \<open>
  Modelled from the spec: the conversion \<open>%f\<close> belongs to the Python runtime, which is
  not part of the repository. spec.md, 4.2: "floating-point values render with
  six-decimal fixed-point formatting". \<open>fixed6 m e\<close> is that text for \<open>m * 2 ^ e\<close>:
  a minus sign for a negative value, the integer part, a point and six decimals, the
  exact value being rounded at the sixth decimal.
\<close>

definition scaled6 :: "int \<Rightarrow> int \<Rightarrow> int" where
  "scaled6 m e =
     (if 0 \<le> e then \<bar>m\<bar> * 2 ^ nat e * 1000000
      else round_half_even (\<bar>m\<bar> * 1000000) (2 ^ nat (- e)))"

definition fixed6 :: "int \<Rightarrow> int \<Rightarrow> string" where
  "fixed6 m e =
     (let n = scaled6 m e; frac = digits (n mod 1000000)
      in (if m < 0 then ''-'' else []) @ digits (n div 1000000) @ ''.''
         @ replicate (6 - length frac) (CHR ''0'') @ frac)"

text \<open>
  What \<open>%f\<close> does in Python 2 beyond that. A magnitude of at least \<open>1e50\<close> (the float
  nearest to \<open>10 ^ 50\<close>) is converted as by \<open>%g\<close>: six significant digits, trailing
  zeros dropped, and the decimal exponent. The infinities and not-a-number are
  written by name, the negative zero with its sign.
\<close>

definition float_1e50 :: int where
  "float_1e50 = 100000000000000007629769841091887003294964970946560"

definition beyond_fixed :: "int \<Rightarrow> int \<Rightarrow> bool" where
  "beyond_fixed m e =
     (if 0 \<le> e then float_1e50 \<le> \<bar>m\<bar> * 2 ^ nat e
      else float_1e50 * 2 ^ nat (- e) \<le> \<bar>m\<bar>)"

definition strip_zeros :: "string \<Rightarrow> string" where
  "strip_zeros s = rev (dropWhile (\<lambda>c. c = CHR ''0'') (rev s))"

definition sci6 :: "int \<Rightarrow> int \<Rightarrow> string" where
  "sci6 m e =
     (let p = (if 0 \<le> e then \<bar>m\<bar> * 2 ^ nat e else \<bar>m\<bar>);
          q = (if 0 \<le> e then 1 else 2 ^ nat (- e));
          x0 = length (digits (p div q)) - 1;
          n0 = round_half_even p (q * 10 ^ (x0 - 5));
          n = (if n0 = 1000000 then 100000 else n0);
          x = (if n0 = 1000000 then x0 + 1 else x0);
          ds = strip_zeros (digits n);
          mantissa = (case ds of [] \<Rightarrow> [] | [d] \<Rightarrow> [d] | d # rest \<Rightarrow> d # CHR ''.'' # rest)
      in (if m < 0 then ''-'' else []) @ mantissa @ ''e+'' @ digits (int x))"

definition format_f :: "pyfloat \<Rightarrow> string" where
  "format_f x =
     (case x of
        PyFloat m e \<Rightarrow> if beyond_fixed m e then sci6 m e else fixed6 m e
      | NegZero \<Rightarrow> ''-0.000000''
      | Inf \<Rightarrow> ''inf''
      | NegInf \<Rightarrow> ''-inf''
      | NaN \<Rightarrow> ''nan'')"

text \<open>
  What the interpreter and the process supply: \<open>float_str\<close> is \<open>str\<close> on a float
  (the text \<open>%s\<close> gives for it), \<open>sys_argv\<close> and \<open>os_environ\<close> are \<open>sys.argv\<close> and
  \<open>os.environ\<close>.
\<close>

record runtime =
  float_str :: "pyfloat \<Rightarrow> string"
  sys_argv :: "string list"
  os_environ :: "(string \<times> string) list"

text \<open>\<open>"%s" % val\<close>\<close>

fun py_str :: "runtime \<Rightarrow> pyval \<Rightarrow> string" where
  "py_str rt PNone = ''None''"
| "py_str rt (PBool b) = (if b then ''True'' else ''False'')"
| "py_str rt (PInt i) = str_int i"
| "py_str rt (PStr s) = s"
| "py_str rt (PFloat x) = float_str rt x"

text \<open>
  The exceptions the code raises, each with its message. \<open>Exception\<close> is the plain
  \<open>Exception\<close> class. spec.md names the failures by role:
  \<open>MultipleGraphsNotAllowedError\<close> is the \<open>AttributeError\<close> of \<open>appendGraph\<close> and
  \<open>appendSubgraph\<close>, \<open>UnknownParentGraphError\<close> the \<open>Exception\<close> of \<open>appendSubgraph\<close>,
  \<open>UnknownFilterError\<close> the \<open>AttributeError\<close> of \<open>checkFilter\<close>, \<open>UnknownCommandError\<close>
  the \<open>Exception\<close> of \<open>run\<close>.
\<close>

datatype error =
    AttributeError string
  | Exception string
  | KeyError string
  | ValueError string

text \<open>The message of an \<open>AttributeError\<close> for a missing attribute.\<close>

definition no_attribute :: "string \<Rightarrow> string \<Rightarrow> string" where
  "no_attribute ty a =
     [CHR 0x27] @ ty @ [CHR 0x27] @ '' object has no attribute '' @ [CHR 0x27] @ a @ [CHR 0x27]"

text \<open>
  A method that changes its object returns the object as the call leaves it, together
  with the exception it raised, if any: what was assigned before a \<open>raise\<close> stays
  assigned.
\<close>

type_synonym 's upd = "'s \<times> error option"

text \<open>
  A method that prints returns the text it wrote and then either the exception that
  ended it or its return value.
\<close>

type_synonym 'a io = "string \<times> (error + 'a)"

section \<open>\<open>MuninGraph\<close>\<close>

text \<open>
  \<open>_graphAttrDict\<close> and each entry of \<open>_fieldAttrDict\<close> are what \<open>locals()\<close> gives in
  \<open>__init__\<close> and \<open>addField\<close>: one key for each parameter, under the parameter's name.
  (The key \<open>self\<close> is left out: it is never looked up.)
\<close>

record MuninGraph =
  graphAttrDict :: "string \<rightharpoonup> pyval"
  fieldNameList :: "string list"
  fieldAttrDict :: "string \<rightharpoonup> (string \<rightharpoonup> pyval)"
  fieldValDict :: "string \<rightharpoonup> pyval"

text \<open>The keyword parameters of \<open>__init__\<close>, under the names the source gives them.\<close>

record graph_kwargs =
  ga_category :: pyval
  ga_vlabel :: pyval
  ga_info :: pyval
  ga_args :: pyval
  ga_period :: pyval
  ga_scale :: pyval
  ga_total :: pyval
  ga_order :: pyval
  ga_printfformat :: pyval
  ga_witdh :: pyval
  ga_height :: pyval

definition graph_defaults :: graph_kwargs where
  "graph_defaults =
     \<lparr>ga_category = PNone, ga_vlabel = PNone, ga_info = PNone, ga_args = PNone,
      ga_period = PNone, ga_scale = PNone, ga_total = PNone, ga_order = PNone,
      ga_printfformat = PNone, ga_witdh = PNone, ga_height = PNone\<rparr>"

definition MuninGraph_init :: "pyval \<Rightarrow> graph_kwargs \<Rightarrow> MuninGraph" where
  "MuninGraph_init title kw =
     \<lparr>graphAttrDict = map_of
        [(''title'', title), (''category'', ga_category kw), (''vlabel'', ga_vlabel kw),
         (''info'', ga_info kw), (''args'', ga_args kw), (''period'', ga_period kw),
         (''scale'', ga_scale kw), (''total'', ga_total kw), (''order'', ga_order kw),
         (''printfformat'', ga_printfformat kw), (''witdh'', ga_witdh kw),
         (''height'', ga_height kw)],
      fieldNameList = [],
      fieldAttrDict = Map.empty,
      fieldValDict = Map.empty\<rparr>"

text \<open>The keyword parameters of \<open>addField\<close>.\<close>

record field_kwargs =
  fa_type :: pyval
  fa_draw :: pyval
  fa_info :: pyval
  fa_extinfo :: pyval
  fa_colour :: pyval
  fa_negative :: pyval
  fa_graph :: pyval
  fa_min :: pyval
  fa_max :: pyval
  fa_cdef :: pyval
  fa_line :: pyval
  fa_warning :: pyval
  fa_critical :: pyval

definition field_defaults :: field_kwargs where
  "field_defaults =
     \<lparr>fa_type = PNone, fa_draw = PNone, fa_info = PNone, fa_extinfo = PNone,
      fa_colour = PNone, fa_negative = PNone, fa_graph = PNone, fa_min = PNone,
      fa_max = PNone, fa_cdef = PNone, fa_line = PNone, fa_warning = PNone,
      fa_critical = PNone\<rparr>"

definition field_locals :: "string \<Rightarrow> pyval \<Rightarrow> field_kwargs \<Rightarrow> (string \<rightharpoonup> pyval)" where
  "field_locals name label kw = map_of
     [(''name'', PStr name), (''label'', label), (''type'', fa_type kw),
      (''draw'', fa_draw kw), (''info'', fa_info kw), (''extinfo'', fa_extinfo kw),
      (''colour'', fa_colour kw), (''negative'', fa_negative kw), (''graph'', fa_graph kw),
      (''min'', fa_min kw), (''max'', fa_max kw), (''cdef'', fa_cdef kw),
      (''line'', fa_line kw), (''warning'', fa_warning kw), (''critical'', fa_critical kw)]"

definition addField :: "string \<Rightarrow> pyval \<Rightarrow> field_kwargs \<Rightarrow> MuninGraph \<Rightarrow> MuninGraph upd" where
  "addField name label kw g =
     (let attrs = field_locals name label kw
      in (g\<lparr>fieldNameList := fieldNameList g @ [name],
            fieldAttrDict := (fieldAttrDict g)(name \<mapsto> attrs)\<rparr>, None))"

definition hasField :: "MuninGraph \<Rightarrow> string \<Rightarrow> bool" where
  "hasField g field_name = (case fieldAttrDict g field_name of None \<Rightarrow> False | Some _ \<Rightarrow> True)"

definition getFieldList :: "MuninGraph \<Rightarrow> string list" where
  "getFieldList g = fieldNameList g"

text \<open>\<open>d.get(key)\<close>: \<open>None\<close> for a missing key.\<close>

definition dict_get :: "(string \<rightharpoonup> pyval) \<Rightarrow> string \<Rightarrow> pyval" where
  "dict_get d key = (case d key of None \<Rightarrow> PNone | Some v \<Rightarrow> v)"

text \<open>A Boolean attribute is replaced by the text \<open>yes\<close> or \<open>no\<close>.\<close>

definition yes_no :: "pyval \<Rightarrow> pyval" where
  "yes_no val = (case val of PBool b \<Rightarrow> PStr (if b then ''yes'' else ''no'') | _ \<Rightarrow> val)"

definition graph_keys :: "string list" where
  "graph_keys = [''title'', ''category'', ''vlabel'', ''info'', ''args'', ''period'',
                 ''scale'', ''total'', ''order'', ''printfformat'', ''width'', ''height'']"

definition field_keys :: "string list" where
  "field_keys = [''label'', ''type'', ''draw'', ''info'', ''extinfo'', ''colour'',
                 ''negative'', ''graph'', ''min'', ''max'', ''cdef'',
                 ''line'', ''warning'', ''critical'']"

text \<open>The body of the first loop of \<open>getConfig\<close>, for one key.\<close>

definition graph_attr_step :: "runtime \<Rightarrow> (string \<rightharpoonup> pyval) \<Rightarrow> string \<Rightarrow> string list \<Rightarrow> string list" where
  "graph_attr_step rt d key conf =
     (let val = dict_get d key
      in if val \<noteq> PNone then conf @ [''graph_'' @ key @ '' '' @ py_str rt (yes_no val)]
         else conf)"

text \<open>The body of the inner loop over the keys of one field.\<close>

definition field_attr_step :: "runtime \<Rightarrow> string \<Rightarrow> (string \<rightharpoonup> pyval) \<Rightarrow> string \<Rightarrow> string list \<Rightarrow> string list" where
  "field_attr_step rt field_name field_attrs key conf =
     (let val = dict_get field_attrs key
      in if val \<noteq> PNone
         then conf @ [field_name @ ''.'' @ key @ '' '' @ py_str rt (yes_no val)]
         else conf)"

text \<open>
  The loop over the field names. \<open>self._fieldAttrDict.get(field_name)\<close> is \<open>None\<close> for a
  name without an entry, and \<open>None\<close> has no \<open>get\<close>.
\<close>

fun field_loop :: "runtime \<Rightarrow> MuninGraph \<Rightarrow> string list \<Rightarrow> string list \<Rightarrow> error + string list" where
  "field_loop rt g [] conf = Inr conf"
| "field_loop rt g (field_name # rest) conf =
     (case fieldAttrDict g field_name of
        None \<Rightarrow> Inl (AttributeError (no_attribute ''NoneType'' ''get''))
      | Some field_attrs \<Rightarrow>
          field_loop rt g rest (fold (field_attr_step rt field_name field_attrs) field_keys conf))"

definition getConfig :: "runtime \<Rightarrow> MuninGraph \<Rightarrow> error + string" where
  "getConfig rt g =
     (let conf = fold (graph_attr_step rt (graphAttrDict g)) graph_keys []
      in case field_loop rt g (fieldNameList g) conf of
           Inl e \<Rightarrow> Inl e
         | Inr conf' \<Rightarrow> Inr (join_nl conf'))"

definition setVal :: "string \<Rightarrow> pyval \<Rightarrow> MuninGraph \<Rightarrow> MuninGraph upd" where
  "setVal name val g = (g\<lparr>fieldValDict := (fieldValDict g)(name \<mapsto> val)\<rparr>, None)"

text \<open>The body of the loop of \<open>getVals\<close>, for one field name.\<close>

definition val_step :: "runtime \<Rightarrow> MuninGraph \<Rightarrow> string \<Rightarrow> string list \<Rightarrow> string list" where
  "val_step rt g field_name vals =
     (let val = dict_get (fieldValDict g) field_name
      in if val \<noteq> PNone
         then (case val of
                 PFloat x \<Rightarrow> vals @ [field_name @ ''.value '' @ format_f x]
               | _ \<Rightarrow> vals @ [field_name @ ''.value '' @ py_str rt val])
         else vals)"

definition getVals :: "runtime \<Rightarrow> MuninGraph \<Rightarrow> string" where
  "getVals rt g = join_nl (fold (val_step rt g) (fieldNameList g) [])"

section \<open>\<open>MuninPlugin\<close>\<close>

text \<open>
  \<open>plugin_name\<close> and \<open>isMultigraph\<close> are the class attributes a child class sets.
  \<open>_graphDict\<close> holds the graphs by value: nothing proved below depends on two names
  sharing one graph object. \<open>_subGraphDict\<close> and the dictionaries in it are walked by the code,
  so they are association lists in insertion order (Python 2 fixes no order for a
  dictionary with several keys). \<open>_env\<close> maps names to texts and is only looked up.
  \<open>arg0\<close> is left out: no method of the class reads it. (The constructor computes it
  only for a \<open>plugin_name\<close> that ends in an underscore, by compiling the name as a
  pattern; that step is not part of \<open>MuninPlugin_init\<close>.)
\<close>

record MuninPlugin =
  plugin_name :: "string option"
  isMultigraph :: bool
  graphDict :: "string \<rightharpoonup> MuninGraph"
  graphNames :: "string list"
  subGraphDict :: "(string \<times> (string \<times> MuninGraph) list) list"
  nestedGraphs :: bool
  filters :: "string \<rightharpoonup> MuninAttrFilter"
  self_argv :: "string list"
  self_env :: "(string \<times> string) list"
  stateFile :: string

text \<open>\<open>d[k] = v\<close> on an association list.\<close>

fun dict_set :: "string \<Rightarrow> 'v \<Rightarrow> (string \<times> 'v) list \<Rightarrow> (string \<times> 'v) list" where
  "dict_set k v [] = [(k, v)]"
| "dict_set k v ((k', v') # ps) = (if k' = k then (k, v) # ps else (k', v') # dict_set k v ps)"

text \<open>A literal text as a pattern, and the concatenation of patterns.\<close>

fun lits :: "string \<Rightarrow> pattern" where
  "lits [] = Eps"
| "lits (c # cs) = Seq (Atom (Lit c)) (lits cs)"

fun seqs :: "pattern list \<Rightarrow> pattern" where
  "seqs [] = Eps"
| "seqs (p # ps) = Seq p (seqs ps)"

text \<open>
  The pattern of \<open>_parseEnv\<close>, as the source has it: \<open>/s*(no|off)/s*$\<close>. Its \<open>/s*\<close> is a
  slash followed by any number of the letter \<open>s\<close>.
\<close>

definition nested_graphs_pattern :: pattern where
  "nested_graphs_pattern =
     seqs [lits ''/'', Star (lits ''s''), Alt (lits ''no'') (lits ''off''),
           lits ''/'', Star (lits ''s''), Eol]"

text \<open>\<open>[\w\-]+$\<close>, the pattern of the filter \<open>graphs\<close>, and \<open>\w+$\<close>, the default of
  \<open>registerFilter\<close>.\<close>

definition graphs_pattern :: pattern where
  "graphs_pattern = Seq (Plus (Atom (OneOf [WordCh, Lit (CHR ''-'')]))) Eol"

definition word_pattern :: pattern where
  "word_pattern = Seq (Plus (Atom WordCh)) Eol"

text \<open>\<open>"%s" % self.plugin_name\<close>\<close>

definition str_name :: "string option \<Rightarrow> string" where
  "str_name n = (case n of None \<Rightarrow> ''None'' | Some s \<Rightarrow> s)"

text \<open>\<open>_parseEnv\<close>. Its parameter defaults to \<open>None\<close>; a false \<open>env\<close> (\<open>None\<close> or an empty
  dictionary) is replaced by \<open>self._env\<close>.\<close>

definition parseEnv :: "(string \<times> string) list option \<Rightarrow> MuninPlugin \<Rightarrow> MuninPlugin" where
  "parseEnv env_arg p =
     (let env = (case env_arg of None \<Rightarrow> self_env p | Some e \<Rightarrow> if e = [] then self_env p else e);
          p1 = (case map_of env ''MUNIN_STATEFILE'' of
                  Some v \<Rightarrow> p\<lparr>stateFile := v\<rparr>
                | None \<Rightarrow> p\<lparr>stateFile := ''/tmp/munin-state-'' @ str_name (plugin_name p)\<rparr>)
      in case map_of env ''nested_graphs'' of
           Some v \<Rightarrow> if re_match True nested_graphs_pattern v then p1\<lparr>nestedGraphs := False\<rparr> else p1
         | None \<Rightarrow> p1)"

text \<open>\<open>val.split(',')\<close>\<close>

fun split_comma :: "string \<Rightarrow> string list" where
  "split_comma [] = [[]]"
| "split_comma (c # cs) =
     (if c = CHR '','' then [] # split_comma cs
      else (case split_comma cs of [] \<Rightarrow> [[c]] | w # ws \<Rightarrow> (c # w) # ws))"

text \<open>The list \<open>registerFilter\<close> reads from the environment for one prefix.\<close>

definition filter_list :: "MuninPlugin \<Rightarrow> string \<Rightarrow> string \<Rightarrow> string list" where
  "filter_list p prefix filter_name =
     (case map_of (self_env p) (prefix @ ''_'' @ filter_name) of
        None \<Rightarrow> []
      | Some val \<Rightarrow> if val \<noteq> [] then split_comma val else [])"

definition registerFilter :: "string \<Rightarrow> pattern option \<Rightarrow> MuninPlugin \<Rightarrow> MuninPlugin" where
  "registerFilter filter_name attr_regex p =
     p\<lparr>filters := (filters p)(filter_name \<mapsto>
          MuninAttrFilter_init (filter_list p ''include'' filter_name)
                               (filter_list p ''exclude'' filter_name) attr_regex)\<rparr>"

text \<open>The constructor, for a class with the given class attributes.\<close>

definition MuninPlugin_init :: "string option \<Rightarrow> bool \<Rightarrow> string list \<Rightarrow> (string \<times> string) list \<Rightarrow> MuninPlugin" where
  "MuninPlugin_init name multi argv env =
     registerFilter ''graphs'' (Some graphs_pattern)
       (parseEnv None
          \<lparr>plugin_name = name, isMultigraph = multi, graphDict = Map.empty, graphNames = [],
           subGraphDict = [], nestedGraphs = True, filters = Map.empty,
           self_argv = argv, self_env = env, stateFile = []\<rparr>)"

definition checkFilter :: "MuninPlugin \<Rightarrow> string \<Rightarrow> string \<Rightarrow> error + bool" where
  "checkFilter p filter_name attr =
     (case filters p filter_name of
        Some f \<Rightarrow> Inr (check f attr)
      | None \<Rightarrow> Inl (AttributeError (''Undefined filter: '' @ filter_name)))"

definition graphEnabled :: "MuninPlugin \<Rightarrow> string \<Rightarrow> error + bool" where
  "graphEnabled p name = checkFilter p ''graphs'' name"

text \<open>\<open>appendGraph\<close> stores the graph and its name, and only then tests the number of
  names.\<close>

definition appendGraph :: "string \<Rightarrow> MuninGraph \<Rightarrow> MuninPlugin \<Rightarrow> MuninPlugin upd" where
  "appendGraph name graph p =
     (let p' = p\<lparr>graphDict := (graphDict p)(name \<mapsto> graph),
                 graphNames := graphNames p @ [name]\<rparr>
      in if \<not> isMultigraph p' \<and> 1 < length (graphNames p')
         then (p', Some (AttributeError ''Simple Munin Plugins cannot have more than one graph.''))
         else (p', None))"

text \<open>
  \<open>appendSubgraph\<close>. The tests read the parameter \<open>parent_name\<close>; the assignments use the
  quoted texts \<open>'parent_name'\<close> and \<open>'graph_name'\<close> as keys.
\<close>

definition appendSubgraph :: "string \<Rightarrow> string \<Rightarrow> MuninGraph \<Rightarrow> MuninPlugin \<Rightarrow> MuninPlugin upd" where
  "appendSubgraph parent_name graph_name graph p =
     (if \<not> isMultigraph p
      then (p, Some (AttributeError ''Simple Munin Plugins cannot have more than one graph.''))
      else (case graphDict p parent_name of
              Some _ \<Rightarrow>
                (let p1 = (case map_of (subGraphDict p) parent_name of
                             None \<Rightarrow> p\<lparr>subGraphDict := dict_set ''parent_name'' [] (subGraphDict p)\<rparr>
                           | Some _ \<Rightarrow> p)
                 in case map_of (subGraphDict p1) ''parent_name'' of
                      None \<Rightarrow> (p1, Some (KeyError ''parent_name''))
                    | Some subgraphs \<Rightarrow>
                        (p1\<lparr>subGraphDict :=
                              dict_set ''parent_name'' (dict_set ''graph_name'' graph subgraphs)
                                (subGraphDict p1)\<rparr>, None))
            | None \<Rightarrow>
                (p, Some (Exception (''Invalid parent graph name '' @ parent_name
                                     @ '' used for subgraph '' @ graph_name @ ''.'')))))"

definition setGraphVal :: "string \<Rightarrow> string \<Rightarrow> pyval \<Rightarrow> MuninPlugin \<Rightarrow> MuninPlugin upd" where
  "setGraphVal graph_name field_name val p =
     (case graphDict p graph_name of
        Some graph \<Rightarrow>
          (case setVal field_name val graph of
             (graph', r) \<Rightarrow> (p\<lparr>graphDict := (graphDict p)(graph_name \<mapsto> graph')\<rparr>, r))
      | None \<Rightarrow>
          (p, Some (Exception (''Invalid graph name '' @ graph_name
                               @ '' used for setting value.''))))"

definition setSubgraphVal :: "string \<Rightarrow> string \<Rightarrow> pyval \<Rightarrow> MuninPlugin \<Rightarrow> MuninPlugin upd" where
  "setSubgraphVal parent_name graph_name val p =
     (case graphDict p parent_name of
        Some graph \<Rightarrow>
          (case setVal (parent_name @ ''.'' @ graph_name) val graph of
             (graph', r) \<Rightarrow> (p\<lparr>graphDict := (graphDict p)(parent_name \<mapsto> graph')\<rparr>, r))
      | None \<Rightarrow>
          (p, Some (Exception (''Invalid parent graph name '' @ parent_name
                               @ '' used for setting value for subgraph '' @ graph_name
                               @ ''.''))))"

definition hasGraph :: "MuninPlugin \<Rightarrow> string \<Rightarrow> bool" where
  "hasGraph p name = (case graphDict p name of None \<Rightarrow> False | Some _ \<Rightarrow> True)"

definition getGraphList :: "MuninPlugin \<Rightarrow> string list" where
  "getGraphList p = graphNames p"

definition graphHasField :: "MuninPlugin \<Rightarrow> string \<Rightarrow> string \<Rightarrow> error + bool" where
  "graphHasField p graph_name field_name =
     (case graphDict p graph_name of
        None \<Rightarrow> Inl (KeyError graph_name)
      | Some graph \<Rightarrow> Inr (hasField graph field_name))"

definition getGraphFieldList :: "MuninPlugin \<Rightarrow> string \<Rightarrow> error + string list" where
  "getGraphFieldList p graph_name =
     (case graphDict p graph_name of
        None \<Rightarrow> Inl (KeyError graph_name)
      | Some graph \<Rightarrow> Inr (getFieldList graph))"

section \<open>Output: \<open>config\<close>, \<open>fetch\<close>, \<open>run\<close> and \<open>muninMain\<close>\<close>

text \<open>
  A \<open>for\<close> loop whose body prints and may raise: the bodies run in order, their texts
  follow one another, and the first exception ends the loop.
\<close>

fun for_each :: "('a \<Rightarrow> string \<times> error option) \<Rightarrow> 'a list \<Rightarrow> string \<times> error option" where
  "for_each body [] = ([], None)"
| "for_each body (x # xs) =
     (case body x of
        (out, Some e) \<Rightarrow> (out, Some e)
      | (out, None) \<Rightarrow> (case for_each body xs of (out', r) \<Rightarrow> (out @ out', r)))"

text \<open>The body of the first loop of \<open>config\<close>, for one root graph name.\<close>

definition config_root :: "runtime \<Rightarrow> MuninPlugin \<Rightarrow> string \<Rightarrow> string \<times> error option" where
  "config_root rt p name =
     (case graphDict p name of
        None \<Rightarrow> ([], Some (KeyError name))
      | Some graph \<Rightarrow>
          (let out = (if isMultigraph p then print (''multigraph '' @ name) else [])
           in case getConfig rt graph of
                Inl e \<Rightarrow> (out, Some e)
              | Inr conf \<Rightarrow> (out @ print conf @ print [], None)))"

text \<open>
  The body of the inner loop over \<open>subgraphs\<close>. The loop walks the dictionary itself,
  which yields its keys, and unpacks each key into \<open>(graph_name, graph)\<close>: a key of two
  characters gives two one-character texts, and \<open>graph.<method>()\<close> then fails on a text
  after the marker line is printed; any other key cannot be unpacked.
\<close>

definition sub_block :: "string \<Rightarrow> string \<Rightarrow> string \<Rightarrow> string \<times> error option" where
  "sub_block method parent_name key =
     (case key of
        [graph_name, graph] \<Rightarrow>
          (print (''multigraph '' @ parent_name @ ''.'' @ [graph_name]),
           Some (AttributeError (no_attribute ''str'' method)))
      | [] \<Rightarrow> ([], Some (ValueError ''need more than 0 values to unpack''))
      | [_] \<Rightarrow> ([], Some (ValueError ''need more than 1 value to unpack''))
      | _ \<Rightarrow> ([], Some (ValueError ''too many values to unpack'')))"

text \<open>The second loop nest, shared by \<open>config\<close> and \<open>fetch\<close> up to the method called.\<close>

definition sub_blocks :: "string \<Rightarrow> MuninPlugin \<Rightarrow> string \<times> error option" where
  "sub_blocks method p =
     for_each (\<lambda>(parent_name, subgraphs). for_each (sub_block method parent_name) (map fst subgraphs))
       (subGraphDict p)"

definition config :: "runtime \<Rightarrow> MuninPlugin \<Rightarrow> bool io" where
  "config rt p =
     (case for_each (config_root rt p) (graphNames p) of
        (out, Some e) \<Rightarrow> (out, Inl e)
      | (out, None) \<Rightarrow>
          if nestedGraphs p \<and> subGraphDict p \<noteq> []
          then (case sub_blocks ''getConfig'' p of
                  (out', Some e) \<Rightarrow> (out @ out', Inl e)
                | (out', None) \<Rightarrow> (out @ out', Inr True))
          else (out, Inr True))"

text \<open>The body of the first loop of \<open>fetch\<close>.\<close>

definition fetch_root :: "runtime \<Rightarrow> MuninPlugin \<Rightarrow> string \<Rightarrow> string \<times> error option" where
  "fetch_root rt p name =
     (case graphDict p name of
        None \<Rightarrow> ([], Some (KeyError name))
      | Some graph \<Rightarrow>
          (let out = (if isMultigraph p then print (''multigraph '' @ name) else [])
           in (out @ print (getVals rt graph) @ print [], None)))"

text \<open>
  What a subcommand method hands back to \<open>run\<close>: any value, or (spec.md, for
  \<open>suggest\<close>) a sequence of texts. \<open>truthy\<close> is Python's truth test.
\<close>

datatype retval = RVal pyval | RSeq "string list"

fun truthy :: "retval \<Rightarrow> bool" where
  "truthy (RVal PNone) = False"
| "truthy (RVal (PBool b)) = b"
| "truthy (RVal (PInt i)) = (i \<noteq> 0)"
| "truthy (RVal (PStr s)) = (s \<noteq> [])"
| "truthy (RVal (PFloat (PyFloat m e))) = (m \<noteq> 0)"
| "truthy (RVal (PFloat NegZero)) = False"
| "truthy (RVal (PFloat Inf)) = True"
| "truthy (RVal (PFloat NegInf)) = True"
| "truthy (RVal (PFloat NaN)) = True"
| "truthy (RSeq xs) = (xs \<noteq> [])"

text \<open>
  A plugin class: its constructor and the methods a child class is meant to overwrite.
  Each may print and may raise.
\<close>

record plugin_class =
  c_init :: "string list \<Rightarrow> (string \<times> string) list \<Rightarrow> MuninPlugin io"
  c_retrieveVals :: "MuninPlugin \<Rightarrow> MuninPlugin io"
  c_autoconf :: "MuninPlugin \<Rightarrow> retval io"
  c_suggest :: "MuninPlugin \<Rightarrow> retval io"

text \<open>The methods of the base class: \<open>pass\<close>, \<open>return False\<close>, \<open>return True\<close>.\<close>

definition retrieveVals :: "MuninPlugin \<Rightarrow> MuninPlugin io" where
  "retrieveVals p = ([], Inr p)"

definition autoconf :: "MuninPlugin \<Rightarrow> retval io" where
  "autoconf p = ([], Inr (RVal (PBool False)))"

definition suggest :: "MuninPlugin \<Rightarrow> retval io" where
  "suggest p = ([], Inr (RVal (PBool True)))"

definition MuninPlugin_class :: plugin_class where
  "MuninPlugin_class =
     \<lparr>c_init = (\<lambda>argv env. ([], Inr (MuninPlugin_init None False argv env))),
      c_retrieveVals = retrieveVals, c_autoconf = autoconf, c_suggest = suggest\<rparr>"

definition fetch :: "plugin_class \<Rightarrow> runtime \<Rightarrow> MuninPlugin \<Rightarrow> bool io" where
  "fetch cls rt p =
     (case c_retrieveVals cls p of
        (out0, Inl e) \<Rightarrow> (out0, Inl e)
      | (out0, Inr p') \<Rightarrow>
          (case for_each (fetch_root rt p') (graphNames p') of
             (out, Some e) \<Rightarrow> (out0 @ out, Inl e)
           | (out, None) \<Rightarrow>
               if nestedGraphs p' \<and> subGraphDict p' \<noteq> []
               then (case sub_blocks ''getVals'' p' of
                       (out', Some e) \<Rightarrow> (out0 @ out @ out', Inl e)
                     | (out', None) \<Rightarrow> (out0 @ out @ out', Inr True))
               else (out0 @ out, Inr True)))"

text \<open>The subcommand \<open>run\<close> selects.\<close>

definition oper_of :: "string list \<Rightarrow> string" where
  "oper_of argv =
     (if 1 < length argv \<and> 0 < length (argv ! 1) then argv ! 1 else ''fetch'')"

definition run :: "plugin_class \<Rightarrow> runtime \<Rightarrow> MuninPlugin \<Rightarrow> retval io" where
  "run cls rt p =
     (let oper = oper_of (self_argv p)
      in if oper = ''fetch''
         then (case fetch cls rt p of
                 (out, Inl e) \<Rightarrow> (out, Inl e)
               | (out, Inr ret) \<Rightarrow> (out, Inr (RVal (PBool ret))))
         else if oper = ''config''
         then (case config rt p of
                 (out, Inl e) \<Rightarrow> (out, Inl e)
               | (out, Inr ret) \<Rightarrow> (out, Inr (RVal (PBool ret))))
         else if oper = ''autoconf''
         then (case c_autoconf cls p of
                 (out, Inl e) \<Rightarrow> (out, Inl e)
               | (out, Inr ret) \<Rightarrow>
                   (out @ (if truthy ret then print ''yes'' else print ''no''),
                    Inr (RVal (PBool True))))
         else if oper = ''suggest''
         then c_suggest cls p
         else ([], Inl (Exception (''Invalid command argument: '' @ oper))))"

text \<open>\<open>muninMain\<close>: the text printed, and the exit code unless an exception escapes.\<close>

definition muninMain :: "plugin_class \<Rightarrow> runtime \<Rightarrow> string list option \<Rightarrow> (string \<times> string) list option \<Rightarrow> int io" where
  "muninMain pluginClass rt argv env =
     (let argv' = (case argv of None \<Rightarrow> sys_argv rt | Some a \<Rightarrow> a);
          env' = (case env of None \<Rightarrow> os_environ rt | Some e \<Rightarrow> e)
      in case c_init pluginClass argv' env' of
           (out0, Inl e) \<Rightarrow> (out0, Inl e)
         | (out0, Inr plugin) \<Rightarrow>
             (case run pluginClass rt plugin of
                (out, Inl e) \<Rightarrow> (out0 @ out, Inl e)
              | (out, Inr ret) \<Rightarrow> (out0 @ out, Inr (if truthy ret then 0 else 1))))"

section \<open>The texts spec.md describes, for comparison with the loops\<close>

text \<open>
  spec.md, 4.2, \<open>renderValues\<close>: one line \<open><fieldName>.value <value>\<close> for each field
  that has a set value, in registration order; a float as \<open>%f\<close> writes it, any other
  value in its natural form; fields without a value are skipped.
\<close>

definition has_value :: "MuninGraph \<Rightarrow> string \<Rightarrow> bool" where
  "has_value g field_name = (dict_get (fieldValDict g) field_name \<noteq> PNone)"

definition value_text :: "runtime \<Rightarrow> pyval \<Rightarrow> string" where
  "value_text rt val = (case val of PFloat x \<Rightarrow> format_f x | _ \<Rightarrow> py_str rt val)"

definition value_line :: "runtime \<Rightarrow> MuninGraph \<Rightarrow> string \<Rightarrow> string" where
  "value_line rt g field_name =
     field_name @ ''.value '' @ value_text rt (dict_get (fieldValDict g) field_name)"

definition renderValues_spec :: "runtime \<Rightarrow> MuninGraph \<Rightarrow> string" where
  "renderValues_spec rt g =
     join_nl (map (value_line rt g) (filter (has_value g) (fieldNameList g)))"


text \<open>
  spec.md, 4.2, \<open>renderConfig\<close>: one line \<open>graph_<attr> <value>\<close> for each set display
  attribute, then one line \<open><fieldName>.<attr> <value>\<close> for each set attribute of each
  field, both in the fixed order of the key lists.
\<close>

definition graph_lines :: "runtime \<Rightarrow> MuninGraph \<Rightarrow> string list" where
  "graph_lines rt g =
     map (\<lambda>key. ''graph_'' @ key @ '' '' @ py_str rt (yes_no (dict_get (graphAttrDict g) key)))
       (filter (\<lambda>key. dict_get (graphAttrDict g) key \<noteq> PNone) graph_keys)"

definition field_lines :: "runtime \<Rightarrow> string \<Rightarrow> (string \<rightharpoonup> pyval) \<Rightarrow> string list" where
  "field_lines rt field_name field_attrs =
     map (\<lambda>key. field_name @ ''.'' @ key @ '' '' @ py_str rt (yes_no (dict_get field_attrs key)))
       (filter (\<lambda>key. dict_get field_attrs key \<noteq> PNone) field_keys)"

text \<open>
  Every name in the field list has an entry of attributes. \<open>__init__\<close> establishes this
  and \<open>addField\<close> and \<open>setVal\<close> keep it, so it holds of every graph the methods build.
\<close>

definition graph_wf :: "MuninGraph \<Rightarrow> bool" where
  "graph_wf g = list_all (hasField g) (fieldNameList g)"

section \<open>Concrete inputs\<close>

text \<open>
  A runtime for worked examples. None of them renders a float through \<open>%s\<close>, so
  \<open>float_str\<close> is a placeholder.
\<close>

definition example_runtime :: runtime where
  "example_runtime = \<lparr>float_str = (\<lambda>x. ''<float>''), sys_argv = [], os_environ = []\<rparr>"

text \<open>Two graphs without fields, titled \<open>G\<close> and \<open>S\<close>.\<close>

definition graph_G :: MuninGraph where
  "graph_G = MuninGraph_init (PStr ''G'') graph_defaults"

definition graph_S :: MuninGraph where
  "graph_S = MuninGraph_init (PStr ''S'') graph_defaults"

section \<open>Properties of the attribute filter\<close>

lemma mark_attrs_apply:
  "mark_attrs rx b xs d k = (if k \<in> set xs \<and> attr_valid rx k then Some b else d k)"
  unfolding mark_attrs_def
  by (induction xs arbitrary: d) auto

text \<open>
  C6. A filter built with a non-empty include list has \<open>_default\<close> false, whatever the
  validation pattern lets through, so \<open>check\<close> is false for every name that is in
  neither list.
\<close>

theorem attr_filter_include_closes_default:
  assumes "list_include \<noteq> []"
  shows "f_default (MuninAttrFilter_init list_include list_exclude attr_regex) = False
       \<and> (\<forall>name. name \<notin> set list_include \<and> name \<notin> set list_exclude \<longrightarrow>
             check (MuninAttrFilter_init list_include list_exclude attr_regex) name = False)"
  using assms by (simp add: MuninAttrFilter_init_def Let_def check_def mark_attrs_apply)

text \<open>
  The include list \<open>["a b"]\<close> under the pattern of the filter \<open>graphs\<close>: its only entry
  fails the pattern, and the name \<open>x\<close>, in neither list, is disabled all the same.
\<close>

theorem attr_filter_include_closes_default_witness:
  "[''a b''] \<noteq> [] \<and> \<not> attr_valid (Some graphs_pattern) ''a b''
   \<and> f_default (MuninAttrFilter_init [''a b''] [] (Some graphs_pattern)) = False
   \<and> ''x'' \<notin> set [''a b''] \<and> ''x'' \<notin> set []
   \<and> check (MuninAttrFilter_init [''a b''] [] (Some graphs_pattern)) ''x'' = False"
proof -
  have invalid: "\<not> attr_valid (Some graphs_pattern) ''a b''"
    by code_simp
  have ne: "[''a b''] \<noteq> []"
    by simp
  show ?thesis
    using attr_filter_include_closes_default [OF ne, of "[]" "Some graphs_pattern"] invalid
    by simp
qed

text \<open>
  C7. A name that is in the include list and in the exclude list is disabled: the
  exclude list is applied last.
\<close>

theorem attr_filter_exclude_wins:
  assumes "name \<in> set list_include" and "name \<in> set list_exclude"
  shows "check (MuninAttrFilter_init list_include list_exclude attr_regex) name = False"
proof -
  from assms have "list_include \<noteq> []" and "list_exclude \<noteq> []"
    by auto
  with assms show ?thesis
    by (simp add: MuninAttrFilter_init_def Let_def check_def mark_attrs_apply)
qed

theorem attr_filter_exclude_wins_witness:
  "''cpu'' \<in> set [''cpu'', ''mem''] \<and> ''cpu'' \<in> set [''cpu'']
   \<and> check (MuninAttrFilter_init [''cpu'', ''mem''] [''cpu''] (Some graphs_pattern)) ''cpu'' = False"
  using attr_filter_exclude_wins [of "''cpu''" "[''cpu'', ''mem'']" "[''cpu'']" "Some graphs_pattern"]
  by simp


section \<open>Properties of the graph\<close>

lemma val_loop_acc:
  "fold (val_step rt g) ns acc = acc @ map (value_line rt g) (filter (has_value g) ns)"
  by (induction ns arbitrary: acc)
     (auto simp: val_step_def value_line_def value_text_def has_value_def Let_def split: pyval.splits)

lemma getVals_spec: "getVals rt g = renderValues_spec rt g"
  by (simp add: getVals_def renderValues_spec_def val_loop_acc)

lemma graph_loop_acc:
  "fold (graph_attr_step rt d) ks acc =
     acc @ map (\<lambda>key. ''graph_'' @ key @ '' '' @ py_str rt (yes_no (dict_get d key)))
             (filter (\<lambda>key. dict_get d key \<noteq> PNone) ks)"
  by (induction ks arbitrary: acc) (auto simp: graph_attr_step_def Let_def)

lemma field_keys_acc:
  "fold (field_attr_step rt n attrs) ks acc =
     acc @ map (\<lambda>key. n @ ''.'' @ key @ '' '' @ py_str rt (yes_no (dict_get attrs key)))
             (filter (\<lambda>key. dict_get attrs key \<noteq> PNone) ks)"
  by (induction ks arbitrary: acc) (auto simp: field_attr_step_def Let_def)

lemma field_loop_lines:
  "list_all (hasField g) ns \<Longrightarrow>
   field_loop rt g ns acc =
     Inr (acc @ concat (map (\<lambda>n. field_lines rt n (the (fieldAttrDict g n))) ns))"
  by (induction ns arbitrary: acc)
     (auto simp: hasField_def field_lines_def field_keys_acc split: option.splits)

lemma getConfig_lines:
  "graph_wf g \<Longrightarrow>
   getConfig rt g =
     Inr (join_nl (graph_lines rt g
                   @ concat (map (\<lambda>n. field_lines rt n (the (fieldAttrDict g n))) (fieldNameList g))))"
  by (simp add: getConfig_def graph_wf_def field_loop_lines graph_loop_acc graph_lines_def)

lemma graph_wf_init: "graph_wf (MuninGraph_init title kw)"
  by (simp add: graph_wf_def MuninGraph_init_def)

lemma graph_wf_addField: "graph_wf g \<Longrightarrow> graph_wf (fst (addField name label kw g))"
  by (auto simp: graph_wf_def addField_def hasField_def Let_def list_all_iff)

lemma graph_wf_setVal: "graph_wf g \<Longrightarrow> graph_wf (fst (setVal name val g))"
  by (simp add: graph_wf_def setVal_def hasField_def list_all_iff)

text \<open>
  C10. \<open>addField\<close> called twice with one name never fails: the name is appended both
  times, so \<open>getFieldList\<close> ends with it twice; the entry of attributes is that of the
  second call; and \<open>getConfig\<close> renders the lines of the second call at every place
  where the name stands in the list, the two new places included.
\<close>

theorem addField_twice:
  assumes "graph_wf g"
  shows "snd (addField name label1 kw1 g) = None
       \<and> snd (addField name label2 kw2 (fst (addField name label1 kw1 g))) = None
       \<and> (let g2 = fst (addField name label2 kw2 (fst (addField name label1 kw1 g)));
              attrs2 = field_locals name label2 kw2
          in getFieldList g2 = getFieldList g @ [name, name]
           \<and> fieldAttrDict g2 name = Some attrs2
           \<and> getConfig rt g2 =
               Inr (join_nl (graph_lines rt g
                  @ concat (map (\<lambda>n. field_lines rt n
                                  (if n = name then attrs2 else the (fieldAttrDict g n)))
                              (getFieldList g))
                  @ field_lines rt name attrs2 @ field_lines rt name attrs2)))"
proof -
  let ?g2 = "fst (addField name label2 kw2 (fst (addField name label1 kw1 g)))"
  let ?a2 = "field_locals name label2 kw2"
  have wf2: "graph_wf ?g2"
    using assms by (simp add: graph_wf_addField)
  have names: "fieldNameList ?g2 = fieldNameList g @ [name, name]"
    by (simp add: addField_def Let_def)
  have dict: "fieldAttrDict ?g2 = (fieldAttrDict g)(name \<mapsto> ?a2)"
    by (simp add: addField_def Let_def)
  have glines: "graph_lines rt ?g2 = graph_lines rt g"
    by (simp add: graph_lines_def addField_def Let_def)
  have step: "getConfig rt ?g2 =
     Inr (join_nl (graph_lines rt g
        @ concat (map (\<lambda>n. field_lines rt n (the (((fieldAttrDict g)(name \<mapsto> ?a2)) n)))
                    (fieldNameList g @ [name, name]))))"
    using getConfig_lines [OF wf2, of rt] by (simp only: names dict glines)
  have conf: "getConfig rt ?g2 =
     Inr (join_nl (graph_lines rt g
        @ concat (map (\<lambda>n. field_lines rt n (if n = name then ?a2 else the (fieldAttrDict g n)))
                    (fieldNameList g))
        @ field_lines rt name ?a2 @ field_lines rt name ?a2))"
  proof -
    have pick: "the (((fieldAttrDict g)(name \<mapsto> ?a2)) n)
        = (if n = name then ?a2 else the (fieldAttrDict g n))" for n
      by simp
    from step show ?thesis
      unfolding pick by simp
  qed
  have ok: "snd (addField name label1 kw1 g) = None
       \<and> snd (addField name label2 kw2 (fst (addField name label1 kw1 g))) = None"
    by (simp add: addField_def Let_def)
  show ?thesis
    using ok names dict conf by (simp add: Let_def getFieldList_def)
qed

text \<open>
  On the graph \<open>G\<close>: the field \<open>a\<close> is added with the label \<open>one\<close>, then with the
  label \<open>two\<close> and the type \<open>GAUGE\<close>. The lines of the second call are there twice,
  the label \<open>one\<close> is gone.
\<close>

theorem addField_twice_witness:
  "graph_wf graph_G
   \<and> snd (addField ''a'' (PStr ''one'') field_defaults graph_G) = None
   \<and> snd (addField ''a'' (PStr ''two'') (field_defaults\<lparr>fa_type := PStr ''GAUGE''\<rparr>)
           (fst (addField ''a'' (PStr ''one'') field_defaults graph_G))) = None
   \<and> getFieldList (fst (addField ''a'' (PStr ''two'') (field_defaults\<lparr>fa_type := PStr ''GAUGE''\<rparr>)
           (fst (addField ''a'' (PStr ''one'') field_defaults graph_G)))) = [''a'', ''a'']
   \<and> getConfig example_runtime
        (fst (addField ''a'' (PStr ''two'') (field_defaults\<lparr>fa_type := PStr ''GAUGE''\<rparr>)
           (fst (addField ''a'' (PStr ''one'') field_defaults graph_G))))
      = Inr ''graph_title G\<newline>a.label two\<newline>a.type GAUGE\<newline>a.label two\<newline>a.type GAUGE''"
proof -
  have wf: "graph_wf graph_G"
    by (simp add: graph_G_def graph_wf_init)
  have names: "getFieldList graph_G = []"
    by (simp add: graph_G_def getFieldList_def MuninGraph_init_def)
  have rendered: "join_nl (graph_lines example_runtime graph_G
        @ field_lines example_runtime ''a''
            (field_locals ''a'' (PStr ''two'') (field_defaults\<lparr>fa_type := PStr ''GAUGE''\<rparr>))
        @ field_lines example_runtime ''a''
            (field_locals ''a'' (PStr ''two'') (field_defaults\<lparr>fa_type := PStr ''GAUGE''\<rparr>)))
      = ''graph_title G\<newline>a.label two\<newline>a.type GAUGE\<newline>a.label two\<newline>a.type GAUGE''"
    by code_simp
  show ?thesis
    using wf addField_twice [OF wf, of "''a''" "PStr ''one''" field_defaults "PStr ''two''"
        "field_defaults\<lparr>fa_type := PStr ''GAUGE''\<rparr>" example_runtime]
    by (simp add: Let_def names rendered)
qed















text \<open>
  C3, as stated, fails: \<open>setVal\<close> has no test of the name. On the graph \<open>G\<close>, which
  has no field, \<open>setVal\<close> with the name \<open>x\<close> raises nothing and stores the value.
\<close>

theorem setVal_unknown_field_counterexample:
  "''x'' \<notin> set (getFieldList graph_G) \<and> \<not> hasField graph_G ''x''
   \<and> snd (setVal ''x'' (PInt 1) graph_G) = None
   \<and> fieldValDict (fst (setVal ''x'' (PInt 1) graph_G)) ''x'' = Some (PInt 1)"
  by (simp add: graph_G_def MuninGraph_init_def getFieldList_def hasField_def setVal_def)

text \<open>
  C3, amended. For every graph and every name, added by \<open>addField\<close> or not, \<open>setVal\<close>
  raises nothing, stores the value under the name and leaves the field list as it is;
  a value stored under a name that is not in the field list does not show in the text
  of \<open>getVals\<close>.
\<close>

theorem setVal_never_fails:
  "snd (setVal name val g) = None
   \<and> fieldValDict (fst (setVal name val g)) name = Some val
   \<and> getFieldList (fst (setVal name val g)) = getFieldList g
   \<and> (name \<notin> set (getFieldList g) \<longrightarrow>
        getVals rt (fst (setVal name val g)) = getVals rt g)"
proof -
  have "name \<notin> set ns \<Longrightarrow>
        map (value_line rt (fst (setVal name val g))) (filter (has_value (fst (setVal name val g))) ns)
      = map (value_line rt g) (filter (has_value g) ns)" for ns
    by (induction ns) (auto simp: setVal_def value_line_def has_value_def dict_get_def)
  then show ?thesis
    by (simp add: getVals_spec renderValues_spec_def getFieldList_def) (simp add: setVal_def)
qed

text \<open>The name \<open>x\<close> on the graph \<open>G\<close>, which has no field.\<close>

theorem setVal_never_fails_witness:
  "snd (setVal ''x'' (PInt 1) graph_G) = None
   \<and> fieldValDict (fst (setVal ''x'' (PInt 1) graph_G)) ''x'' = Some (PInt 1)
   \<and> getFieldList (fst (setVal ''x'' (PInt 1) graph_G)) = getFieldList graph_G
   \<and> ''x'' \<notin> set (getFieldList graph_G)
   \<and> getVals example_runtime (fst (setVal ''x'' (PInt 1) graph_G)) = getVals example_runtime graph_G
   \<and> getVals example_runtime graph_G = []"
proof -
  have fresh: "''x'' \<notin> set (getFieldList graph_G)"
    by (simp add: graph_G_def MuninGraph_init_def getFieldList_def)
  have empty: "getVals example_runtime graph_G = []"
    by (simp add: graph_G_def MuninGraph_init_def getVals_def)
  show ?thesis
    using setVal_never_fails [of "''x''" "PInt 1" graph_G example_runtime] fresh empty
    by simp
qed


section \<open>Properties of the plugin\<close>

lemma init_fields:
  "graphDict (MuninPlugin_init name multi argv env) = Map.empty"
  "graphNames (MuninPlugin_init name multi argv env) = []"
  "subGraphDict (MuninPlugin_init name multi argv env) = []"
  "isMultigraph (MuninPlugin_init name multi argv env) = multi"
  "self_argv (MuninPlugin_init name multi argv env) = argv"
  "self_env (MuninPlugin_init name multi argv env) = env"
  by (simp_all add: MuninPlugin_init_def registerFilter_def parseEnv_def Let_def split: option.split)

lemma init_nested:
  "nestedGraphs (MuninPlugin_init name multi argv env) =
     (case map_of env ''nested_graphs'' of None \<Rightarrow> True
      | Some v \<Rightarrow> \<not> re_match True nested_graphs_pattern v)"
  by (simp add: MuninPlugin_init_def registerFilter_def parseEnv_def Let_def split: option.split)

lemma getConfig_G: "getConfig rt graph_G = Inr ''graph_title G''"
  by (simp add: graph_G_def getConfig_def MuninGraph_init_def graph_defaults_def graph_keys_def
        graph_attr_step_def dict_get_def yes_no_def Let_def)

lemma getVals_G: "getVals rt graph_G = []"
  by (simp add: graph_G_def getVals_def MuninGraph_init_def)

lemma appendGraph_G:
  "fst (appendGraph ''g'' graph_G (MuninPlugin_init name True argv env))
     = (MuninPlugin_init name True argv env)\<lparr>graphDict := [''g'' \<mapsto> graph_G], graphNames := [''g'']\<rparr>"
  "snd (appendGraph ''g'' graph_G (MuninPlugin_init name True argv env)) = None"
  by (simp_all add: appendGraph_def init_fields Let_def)

lemma appendSubgraph_S:
  "appendSubgraph ''g'' ''s'' graph_S
     ((MuninPlugin_init name True argv env)\<lparr>graphDict := [''g'' \<mapsto> graph_G], graphNames := [''g'']\<rparr>)
   = ((MuninPlugin_init name True argv env)
        \<lparr>graphDict := [''g'' \<mapsto> graph_G], graphNames := [''g''],
         subGraphDict := [(''parent_name'', [(''graph_name'', graph_S)])]\<rparr>, None)"
  by (simp add: appendSubgraph_def init_fields Let_def)

lemma sub_blocks_literal:
  "sub_blocks method (p\<lparr>subGraphDict := [(''parent_name'', [(''graph_name'', g)])]\<rparr>)
   = ([], Some (ValueError ''too many values to unpack''))"
  by (simp add: sub_blocks_def sub_block_def)

lemma config_one_subgraph:
  assumes "nestedGraphs p" and "isMultigraph p"
  shows "config rt (p\<lparr>graphDict := [''g'' \<mapsto> graph_G], graphNames := [''g''],
                      subGraphDict := [(''parent_name'', [(''graph_name'', s)])]\<rparr>)
       = (''multigraph g\<newline>graph_title G\<newline>\<newline>'',
          Inl (ValueError ''too many values to unpack''))"
proof -
  let ?p = "p\<lparr>graphDict := [''g'' \<mapsto> graph_G], graphNames := [''g'']\<rparr>"
  have root: "config_root rt (?p\<lparr>subGraphDict := [(''parent_name'', [(''graph_name'', s)])]\<rparr>) ''g''
      = (''multigraph g\<newline>graph_title G\<newline>\<newline>'', None)"
    using assms by (simp add: config_root_def getConfig_G print_def nl_def)
  show ?thesis
    using assms by (simp add: config_def root sub_blocks_literal)
qed

lemma fetch_one_subgraph:
  assumes "nestedGraphs p" and "isMultigraph p"
  shows "fetch MuninPlugin_class rt
           (p\<lparr>graphDict := [''g'' \<mapsto> graph_G], graphNames := [''g''],
              subGraphDict := [(''parent_name'', [(''graph_name'', s)])]\<rparr>)
       = (''multigraph g\<newline>\<newline>\<newline>'', Inl (ValueError ''too many values to unpack''))"
proof -
  let ?p = "p\<lparr>graphDict := [''g'' \<mapsto> graph_G], graphNames := [''g'']\<rparr>"
  have root: "fetch_root rt (?p\<lparr>subGraphDict := [(''parent_name'', [(''graph_name'', s)])]\<rparr>) ''g''
      = (''multigraph g\<newline>\<newline>\<newline>'', None)"
    using assms by (simp add: fetch_root_def getVals_G print_def nl_def)
  show ?thesis
    using assms
    by (simp add: fetch_def MuninPlugin_class_def retrieveVals_def root sub_blocks_literal)
qed

text \<open>
  The second loop nest never completes a block: each key of an inner dictionary ends
  the loops with an exception. So whenever \<open>config\<close> returns, what it printed is the
  text of the root graph blocks alone.
\<close>

lemma sub_block_raises: "snd (sub_block method parent_name key) \<noteq> None"
  by (simp add: sub_block_def split: list.split)

lemma for_each_raising:
  assumes "\<And>x. x \<in> set xs \<Longrightarrow> snd (body x) \<noteq> None" and "for_each body xs = (out, None)"
  shows "xs = []"
proof (cases xs)
  case Nil
  then show ?thesis by simp
next
  case (Cons x ys)
  with assms(1) have "snd (body x) \<noteq> None" by simp
  then obtain o1 e where "body x = (o1, Some e)" by (cases "body x") auto
  with assms(2) Cons show ?thesis by simp
qed

lemma sub_blocks_silent:
  "for_each (\<lambda>(parent_name, subgraphs). for_each (sub_block method parent_name) (map fst subgraphs)) d
     = (out, None) \<Longrightarrow> out = [] \<and> list_all (\<lambda>(parent_name, subgraphs). subgraphs = []) d"
proof (induction d arbitrary: out)
  case Nil
  then show ?case by simp
next
  case (Cons entry d)
  obtain parent_name subgraphs where entry: "entry = (parent_name, subgraphs)"
    by (cases entry)
  obtain o1 r1 where inner: "for_each (sub_block method parent_name) (map fst subgraphs) = (o1, r1)"
    by (cases "for_each (sub_block method parent_name) (map fst subgraphs)")
  obtain o2 r2 where rest:
    "for_each (\<lambda>(parent_name, subgraphs). for_each (sub_block method parent_name) (map fst subgraphs)) d
       = (o2, r2)"
    by (cases "for_each (\<lambda>(parent_name, subgraphs). for_each (sub_block method parent_name) (map fst subgraphs)) d")
  from Cons.prems entry inner rest have r1: "r1 = None" and r2: "r2 = None" and out: "out = o1 @ o2"
    by (auto split: option.splits)
  from inner r1 have "map fst subgraphs = []"
    by (intro for_each_raising [of "map fst subgraphs" "sub_block method parent_name" o1])
       (simp_all add: sub_block_raises)
  then have empty: "subgraphs = []" by simp
  with inner have "o1 = []" by simp
  moreover from Cons.IH [OF rest [unfolded r2]] have "o2 = []"
    and "list_all (\<lambda>(parent_name, subgraphs). subgraphs = []) d" by simp_all
  ultimately show ?case
    using out entry empty by simp
qed

lemma config_returns_roots_only:
  assumes "config rt p = (out, Inr b)"
  shows "for_each (config_root rt p) (graphNames p) = (out, None)"
proof -
  obtain o1 r1 where roots: "for_each (config_root rt p) (graphNames p) = (o1, r1)"
    by (cases "for_each (config_root rt p) (graphNames p)")
  obtain o2 r2 where subs: "sub_blocks ''getConfig'' p = (o2, r2)"
    by (cases "sub_blocks ''getConfig'' p")
  from assms roots have r1: "r1 = None"
    by (auto simp: config_def split: option.splits)
  show ?thesis
  proof (cases "nestedGraphs p \<and> subGraphDict p \<noteq> []")
    case True
    with assms roots r1 subs have "r2 = None" and out: "out = o1 @ o2"
      by (auto simp: config_def split: option.splits)
    with subs have "o2 = []"
      using sub_blocks_silent [of "''getConfig''" "subGraphDict p" o2]
      by (simp add: sub_blocks_def)
    with out roots r1 show ?thesis by simp
  next
    case False
    with assms roots r1 show ?thesis
      by (auto simp: config_def)
  qed
qed

text \<open>
  C4, on the code. A plugin that is not multigraph receives \<open>appendGraph\<close> twice. The
  second call raises the \<open>AttributeError\<close>, but only after it has stored the graph
  and its name: the plugin then lists both names and holds the second graph.
\<close>

theorem appendGraph_second_call_registers:
  "(let p0 = MuninPlugin_init name False argv env;
        p1 = fst (appendGraph ''a'' ga p0);
        p2 = fst (appendGraph ''b'' gb p1)
    in snd (appendGraph ''a'' ga p0) = None
     \<and> snd (appendGraph ''b'' gb p1)
         = Some (AttributeError ''Simple Munin Plugins cannot have more than one graph.'')
     \<and> getGraphList p1 = [''a'']
     \<and> getGraphList p2 = [''a'', ''b'']
     \<and> graphDict p2 ''b'' = Some gb
     \<and> hasGraph p2 ''b'')"
  by (simp add: Let_def appendGraph_def init_fields getGraphList_def hasGraph_def)

text \<open>
  C1, on the code. A multigraph plugin with nested graphs enabled registers the root
  graph \<open>g\<close> and then the subgraph \<open>s\<close> under it. \<open>appendSubgraph\<close> files the
  subgraph under the quoted keys \<open>parent_name\<close> and \<open>graph_name\<close>; \<open>config\<close> and
  \<open>fetch\<close> print the root block and then raise \<open>ValueError\<close> on unpacking the key,
  without any \<open>multigraph g.s\<close> line; and a second subgraph \<open>t\<close> takes the place of
  the first.
\<close>

theorem config_subgraph_fails:
  "(let p0 = MuninPlugin_init name True argv [];
        p1 = fst (appendGraph ''g'' graph_G p0);
        p2 = fst (appendSubgraph ''g'' ''s'' graph_S p1)
    in snd (appendGraph ''g'' graph_G p0) = None
     \<and> snd (appendSubgraph ''g'' ''s'' graph_S p1) = None
     \<and> nestedGraphs p2
     \<and> subGraphDict p2 = [(''parent_name'', [(''graph_name'', graph_S)])]
     \<and> config rt p2 = (''multigraph g\<newline>graph_title G\<newline>\<newline>'',
                       Inl (ValueError ''too many values to unpack''))
     \<and> fetch MuninPlugin_class rt p2 = (''multigraph g\<newline>\<newline>\<newline>'',
                       Inl (ValueError ''too many values to unpack''))
     \<and> appendSubgraph ''g'' ''t'' graph_G p2
         = (p2\<lparr>subGraphDict := [(''parent_name'', [(''graph_name'', graph_G)])]\<rparr>, None))"
proof -
  have on: "nestedGraphs (MuninPlugin_init name True argv [])"
    by (simp add: init_nested)
  have multi: "isMultigraph (MuninPlugin_init name True argv [])"
    by (simp add: init_fields)
  have again: "appendSubgraph ''g'' ''t'' graph_G
       ((MuninPlugin_init name True argv [])
          \<lparr>graphDict := [''g'' \<mapsto> graph_G], graphNames := [''g''],
           subGraphDict := [(''parent_name'', [(''graph_name'', graph_S)])]\<rparr>)
     = ((MuninPlugin_init name True argv [])
          \<lparr>graphDict := [''g'' \<mapsto> graph_G], graphNames := [''g''],
           subGraphDict := [(''parent_name'', [(''graph_name'', graph_G)])]\<rparr>, None)"
    by (simp add: appendSubgraph_def init_fields Let_def)
  show ?thesis
    using on
    by (simp add: Let_def appendGraph_G appendSubgraph_S again
          config_one_subgraph [OF on multi] fetch_one_subgraph [OF on multi])
qed


lemma nested_values:
  "\<not> re_match True nested_graphs_pattern ''no''"
  "\<not> re_match True nested_graphs_pattern ''off''"
  "\<not> re_match True nested_graphs_pattern ''NO''"
  "\<not> re_match True nested_graphs_pattern ''Off''"
  "re_match True nested_graphs_pattern ''/no/''"
  by code_simp+

text \<open>
  C2, on the code. With \<open>nested_graphs\<close> set to \<open>no\<close>, \<open>off\<close>, \<open>NO\<close> or \<open>Off\<close> the
  constructor leaves \<open>nestedGraphs\<close> true, since the pattern asks for a slash first;
  \<open>/no/\<close> is a value that does switch it off. With \<open>nested_graphs=no\<close> and one
  subgraph registered, \<open>config\<close> and \<open>fetch\<close> still enter the subgraph loops and end
  with the \<open>ValueError\<close>.
\<close>

theorem nested_graphs_no_keeps_nesting:
  "nestedGraphs (MuninPlugin_init name multi argv [(''nested_graphs'', ''no'')])
   \<and> nestedGraphs (MuninPlugin_init name multi argv [(''nested_graphs'', ''off'')])
   \<and> nestedGraphs (MuninPlugin_init name multi argv [(''nested_graphs'', ''NO'')])
   \<and> nestedGraphs (MuninPlugin_init name multi argv [(''nested_graphs'', ''Off'')])
   \<and> \<not> nestedGraphs (MuninPlugin_init name multi argv [(''nested_graphs'', ''/no/'')])
   \<and> (let p0 = MuninPlugin_init name True argv [(''nested_graphs'', ''no'')];
            p1 = fst (appendGraph ''g'' graph_G p0);
            p2 = fst (appendSubgraph ''g'' ''s'' graph_S p1)
        in snd (appendSubgraph ''g'' ''s'' graph_S p1) = None
         \<and> config rt p2 = (''multigraph g\<newline>graph_title G\<newline>\<newline>'',
                           Inl (ValueError ''too many values to unpack''))
         \<and> fetch MuninPlugin_class rt p2 = (''multigraph g\<newline>\<newline>\<newline>'',
                           Inl (ValueError ''too many values to unpack'')))"
proof -
  have on: "nestedGraphs (MuninPlugin_init name True argv [(''nested_graphs'', ''no'')])"
    by (simp add: init_nested nested_values del: re_match.simps)
  have multi: "isMultigraph (MuninPlugin_init name True argv [(''nested_graphs'', ''no'')])"
    by (simp add: init_fields)
  show ?thesis
    by (simp add: init_nested nested_values Let_def appendGraph_G appendSubgraph_S
          config_one_subgraph [OF on multi] fetch_one_subgraph [OF on multi]
          del: re_match.simps)
qed

text \<open>
  C5, as stated, fails: what the base \<open>suggest\<close> returns is not an empty sequence.
\<close>

theorem suggest_empty_sequence_counterexample:
  "suggest (MuninPlugin_init None False [] []) \<noteq> ([], Inr (RSeq []))"
  by (simp add: suggest_def)

text \<open>
  C5, amended. The base \<open>suggest\<close> prints nothing and returns \<open>True\<close>, a true value.
\<close>

theorem suggest_returns_true:
  "suggest p = ([], Inr (RVal (PBool True)))
   \<and> c_suggest MuninPlugin_class p = suggest p
   \<and> truthy (RVal (PBool True))"
  by (simp add: suggest_def MuninPlugin_class_def)

text \<open>
  C9. When the subcommand is \<open>autoconf\<close> and the plugin's \<open>autoconf\<close> method returns
  a value, \<open>run\<close> prints \<open>yes\<close> for a true value and \<open>no\<close> for a false one and
  returns \<open>True\<close> in both cases; \<open>muninMain\<close>, for a constructor that yields this
  plugin, then gives the exit code 0.
\<close>

theorem run_autoconf_returns_true:
  assumes "1 < length (self_argv p)" and "self_argv p ! 1 = ''autoconf''"
    and "c_autoconf cls p = (out, Inr ret)"
  shows "run cls rt p = (out @ (if truthy ret then ''yes'' else ''no'') @ [nl], Inr (RVal (PBool True)))
       \<and> truthy (RVal (PBool True))
       \<and> (\<forall>argv env out0.
             c_init cls (case argv of None \<Rightarrow> sys_argv rt | Some a \<Rightarrow> a)
                        (case env of None \<Rightarrow> os_environ rt | Some e \<Rightarrow> e) = (out0, Inr p)
             \<longrightarrow> muninMain cls rt argv env
                   = (out0 @ out @ (if truthy ret then ''yes'' else ''no'') @ [nl], Inr 0))"
proof -
  have oper: "oper_of (self_argv p) = ''autoconf''"
    using assms(1,2) by (simp add: oper_of_def)
  have r: "run cls rt p
      = (out @ (if truthy ret then ''yes'' else ''no'') @ [nl], Inr (RVal (PBool True)))"
    using assms(3) by (simp add: run_def oper Let_def print_def)
  show ?thesis
    by (simp add: r muninMain_def Let_def)
qed

text \<open>
  The base class, whose \<open>autoconf\<close> returns \<open>False\<close>, called as
  \<open>plugin autoconf\<close>: the text is \<open>no\<close>, the exit code 0.
\<close>

theorem run_autoconf_returns_true_witness:
  "1 < length (self_argv (MuninPlugin_init None False [''plugin'', ''autoconf''] []))
   \<and> self_argv (MuninPlugin_init None False [''plugin'', ''autoconf''] []) ! 1 = ''autoconf''
   \<and> c_autoconf MuninPlugin_class (MuninPlugin_init None False [''plugin'', ''autoconf''] [])
       = ([], Inr (RVal (PBool False)))
   \<and> run MuninPlugin_class example_runtime (MuninPlugin_init None False [''plugin'', ''autoconf''] [])
       = (''no\<newline>'', Inr (RVal (PBool True)))
   \<and> c_init MuninPlugin_class [''plugin'', ''autoconf''] []
       = ([], Inr (MuninPlugin_init None False [''plugin'', ''autoconf''] []))
   \<and> muninMain MuninPlugin_class example_runtime (Some [''plugin'', ''autoconf'']) (Some [])
       = (''no\<newline>'', Inr 0)"
proof -
  let ?p = "MuninPlugin_init None False [''plugin'', ''autoconf''] []"
  have len: "1 < length (self_argv ?p)" and sub: "self_argv ?p ! 1 = ''autoconf''"
    by (simp_all add: init_fields)
  have base: "c_autoconf MuninPlugin_class ?p = ([], Inr (RVal (PBool False)))"
    by (simp add: MuninPlugin_class_def autoconf_def)
  have ctor: "c_init MuninPlugin_class [''plugin'', ''autoconf''] [] = ([], Inr ?p)"
    by (simp add: MuninPlugin_class_def)
  from run_autoconf_returns_true [OF len sub base, of example_runtime]
  have run_main: "run MuninPlugin_class example_runtime ?p = (''no\<newline>'', Inr (RVal (PBool True)))"
    and main: "\<And>argv env out0.
             c_init MuninPlugin_class (case argv of None \<Rightarrow> sys_argv example_runtime | Some a \<Rightarrow> a)
                        (case env of None \<Rightarrow> os_environ example_runtime | Some e \<Rightarrow> e) = (out0, Inr ?p)
             \<Longrightarrow> muninMain MuninPlugin_class example_runtime argv env = (out0 @ ''no\<newline>'', Inr 0)"
    by (simp_all add: nl_def)
  have "muninMain MuninPlugin_class example_runtime (Some [''plugin'', ''autoconf'']) (Some [])
       = (''no\<newline>'', Inr 0)"
    using main [of "Some [''plugin'', ''autoconf'']" "Some []" "[]"] ctor by simp
  then show ?thesis
    using len sub base ctor run_main by simp
qed


end
